theory Spec2Isabelle
  imports Complex_Main
begin

section \<open>The adaptive training controller of demo.py\<close>

text \<open>
  The development embeds the control logic of \<^verbatim>\<open>Trainer\<close> (demo.py): the constructor,
  \<^verbatim>\<open>train\<close>, \<^verbatim>\<open>train_step\<close> (the primitive path) and \<^verbatim>\<open>train_step_3dgs\<close> (the baseline
  point path). The renderer, the loss functions, the optimizers, the primitive models and
  the viewer are external collaborators. A call to one of them is recorded as an
  \<open>event\<close> in the order the code makes it; a value one of them returns (a loss, the
  selector returned by the viewer) is an input of the iteration. Python floats are
  modelled as the reals, Python integers as \<open>int\<close>.
\<close>

subsection \<open>Data model\<close>

datatype error = UnboundLocalError | ZeroDivisionError

datatype event =
    TryConnect
  | CreateFeatureTexture
  | ModeCall int
  | TrainingSetup real "real option"
  | SetActiveShDegree int
  | UpdateLearningRate int
  | OneUpShDegree
  | Render string
  | Backward real
  | ProgressPostfix real
  | ProgressUpdate
  | ProgressClose
  | WandbLog real
  | TrainingReport int real real
  | Print string
  | SaveCheckpoint string
  | AddDensificationStatsV3
  | AddDensificationStatsV4
  | AddDensificationStatsV2
  | OptimizerStep
  | ZeroGradNone
  | ZeroGrad
  | DensifyAndPrune
  | RenderClient string
  | SetBackgroundImage "string option"
  | SetNumPrimitives
  | EmptyCache
  | GsUpdateLearningRate int
  | GsOneUpShDegree
  | GsRender
  | GsAddDensificationStats
  | GsDensifyAndPrune "int option"
  | GsResetOpacity
  | GsOptimizerStep
  | GsZeroGradNone
  | GsSavePointcloud
  | GsRenderClient

text \<open>
  What \<^verbatim>\<open>bprimitive_object.capture()\<close> returns at some moment: the mode of the object
  and every call made so far. The object's parameters are a function of that history.
\<close>

record snapshot =
  snap_boundary_mode :: int
  snap_history :: "event list"

text \<open>
  The arguments the code only reads: \<^verbatim>\<open>optimzer_args\<close>, \<^verbatim>\<open>pipeline_args\<close>, the scene's
  \<^verbatim>\<open>model_path\<close> and the arguments of \<^verbatim>\<open>train\<close>. The four densification thresholds are
  passed through to \<^verbatim>\<open>densify_and_prune\<close> unread and are left out.
\<close>

record config =
  iterations :: int
  lambda_dssim :: real
  densify_until_iter :: int
  densification_interval :: int
  densify_from_iter :: int
  opacity_reset_interval :: int
  mode2_iters :: int
  fix_iters :: int
  log_blur_radius_tex :: real
  model_path :: string
  testing_iterations :: "int list"
  checkpoint_iterations :: "int list"
  debug_from :: int
  disable_viewer :: bool

text \<open>
  The mutable state: the controls of the \<^verbatim>\<open>server\<close> dictionary (the interactive control
  channel), the fields of the trainer and of its arguments that the code assigns, the mode
  of the primitive object, the checkpoint files written, and the calls made so far.
\<close>

record state =
  mode_value :: int
  slider_boundary_scale :: real
  checkbox_split :: bool
  checkbox_pts_mode :: bool
  button_train_state :: bool
  button_optimize_state :: bool
  wandb :: bool
  has_server :: bool
  render_type_value :: string
  learning_rate_value :: real
  first_iter :: int
  ema_loss_for_log :: real
  position_lr_init :: real
  debug :: bool
  boundary_mode :: int
  files :: "string \<rightharpoonup> snapshot \<times> int"
  trace :: "event list"

text \<open>
  What the outside world supplies to one iteration: the values the client of the control
  channel has set since the last iteration (\<open>None\<close>: control untouched), the selector
  returned by \<^verbatim>\<open>network_gui.on_gui_change()\<close>, and the values of \<^verbatim>\<open>mse_loss\<close>, \<^verbatim>\<open>l1_loss\<close>
  and \<^verbatim>\<open>ssim\<close> on this iteration's rendered image.
\<close>

record env =
  gui_mode :: "int option"
  gui_train :: "bool option"
  gui_optimize :: "bool option"
  gui_split :: "bool option"
  gui_pts_mode :: "bool option"
  gui_render_type :: "string option"
  on_gui_change :: string
  mse_loss :: real
  l1_loss :: real
  ssim :: real

datatype outcome = Returned | Raised error

subsection \<open>Helpers\<close>

definition emit :: "event \<Rightarrow> state \<Rightarrow> state" where
  "emit e s = s\<lparr>trace := trace s @ [e]\<rparr>"

definition emits :: "event list \<Rightarrow> state \<Rightarrow> state" where
  "emits es s = s\<lparr>trace := trace s @ es\<rparr>"

text \<open>\<^verbatim>\<open>torch.lerp(start, end, weight)\<close> is \<open>start + weight * (end - start)\<close>.\<close>

definition lerp :: "real \<Rightarrow> real \<Rightarrow> real \<Rightarrow> real" where
  "lerp start end weight = start + weight * (end - start)"

text \<open>\<^verbatim>\<open>str(n)\<close> on a Python integer.\<close>

fun str_nat :: "nat \<Rightarrow> string" where
  "str_nat n =
     (if n < 10 then [''0123456789'' ! n]
      else str_nat (n div 10) @ [''0123456789'' ! (n mod 10)])"

definition str_int :: "int \<Rightarrow> string" where
  "str_int i = (if i < 0 then CHR ''-'' # str_nat (nat (- i)) else str_nat (nat i))"

definition chkpnt_path :: "config \<Rightarrow> int \<Rightarrow> string" where
  "chkpnt_path cfg iteration = model_path cfg @ ''/chkpnt'' @ str_int iteration @ ''.pth''"

definition capture :: "state \<Rightarrow> snapshot" where
  "capture s = \<lparr>snap_boundary_mode = boundary_mode s, snap_history = trace s\<rparr>"

text \<open>
  Modelled from the spec: \<^verbatim>\<open>BPrimitiveBezier.mode\<close> is defined in model.py, which is not
  among the sources. The spec (4.3) says that the state handler is called every iteration
  and is guarded by a "did this transition already fire" check, so that re-entering a
  state already active performs no reconfiguration: the call makes \<open>k\<close> the mode of the
  object and answers whether that changed it.
\<close>

definition mode :: "int \<Rightarrow> state \<Rightarrow> bool \<times> state" where
  "mode k s = (boundary_mode s \<noteq> k, emit (ModeCall k) (s\<lparr>boundary_mode := k\<rparr>))"

subsection \<open>Trainer.__init__ and Trainer.train\<close>

text \<open>
  The constructor. A checkpoint is the pair that \<^verbatim>\<open>torch.load\<close> returns; of the model
  parameters only the mode that \<^verbatim>\<open>restore\<close> (model.py) leaves in the object matters here.
\<close>

definition Trainer_init :: "(int \<times> int) option \<Rightarrow> state \<Rightarrow> state" where
  "Trainer_init checkpoint s0 =
     (let s = s0\<lparr>first_iter := 0\<rparr>;
          s = (case checkpoint of
                 None \<Rightarrow> s
               | Some (restored_mode, iteration_number) \<Rightarrow>
                   (let s = s\<lparr>first_iter := iteration_number, boundary_mode := restored_mode\<rparr>
                    in if first_iter s > 15200 then snd (mode 2 s) else s))
      in s\<lparr>ema_loss_for_log := 0\<rparr>)"

subsection \<open>Trainer.train_step: the primitive path\<close>

definition mode_switch :: "config \<Rightarrow> int \<Rightarrow> state \<Rightarrow> state" where
  "mode_switch cfg iteration s =
     (let s = (if iteration = mode2_iters cfg
               then emit CreateFeatureTexture
                      (s\<lparr>mode_value := 2, slider_boundary_scale := log_blur_radius_tex cfg\<rparr>)
               else s)
      in if iteration > fix_iters cfg then s\<lparr>checkbox_split := False\<rparr> else s)"

definition handle_mode0 :: "state \<Rightarrow> state" where
  "handle_mode0 s =
     (if mode_value s = 0 then
        (let s = s\<lparr>slider_boundary_scale := - 9\<rparr>;
             (fired, s) = mode 0 s
         in if fired then
              (let s = s\<lparr>position_lr_init := position_lr_init s * 5\<rparr>
               in emit (TrainingSetup (position_lr_init s) None) s)
            else s)
      else s)"

definition handle_mode1 :: "state \<Rightarrow> state" where
  "handle_mode1 s =
     (if mode_value s = 1 then
        (let (fired, s) = mode 1 s
         in if fired then
              (let s = emit (TrainingSetup (position_lr_init s) None) s
               in if slider_boundary_scale s < - 7 then s\<lparr>slider_boundary_scale := - 7\<rparr> else s)
            else s)
      else s)"

definition handle_mode2 :: "config \<Rightarrow> state \<Rightarrow> state" where
  "handle_mode2 cfg s =
     (if mode_value s = 2 then
        (let (fired, s) = mode 2 s
         in if fired then
              (let s = s\<lparr>slider_boundary_scale := log_blur_radius_tex cfg\<rparr>;
                   s = (if fix_iters cfg < 30000 then s\<lparr>checkbox_split := False\<rparr> else s);
                   s = emit (SetActiveShDegree 0) s
               in emit (TrainingSetup (position_lr_init s) None) s)
            else s)
      else s)"

definition update_lr :: "int \<Rightarrow> state \<Rightarrow> state" where
  "update_lr iteration s =
     (if mode_value s = 1 then emit (UpdateLearningRate iteration) s
      else if iteration > 15200 then emit (UpdateLearningRate (iteration - 15000)) s
      else s)"

definition sh_up :: "int \<Rightarrow> state \<Rightarrow> state" where
  "sh_up iteration s = (if iteration mod 1000 = 0 then emit OneUpShDegree s else s)"

definition photometric_loss :: "env \<Rightarrow> state \<Rightarrow> real" where
  "photometric_loss e s = (if mode_value s < 2 then mse_loss e else l1_loss e)"

definition total_loss :: "config \<Rightarrow> env \<Rightarrow> state \<Rightarrow> real" where
  "total_loss cfg e s = lerp (photometric_loss e s) (1 - ssim e) (lambda_dssim cfg)"

text \<open>Lines 248 to 286: render, loss, backward pass, moving average, progress and reports.\<close>

definition forward_backward :: "config \<Rightarrow> env \<Rightarrow> int \<Rightarrow> state \<Rightarrow> state" where
  "forward_backward cfg e iteration s =
     (let s = emit (Render (on_gui_change e)) s;
          loss = total_loss cfg e s;
          s = emit (Backward loss) s;
          s = s\<lparr>ema_loss_for_log := 0.4 * loss + 0.6 * ema_loss_for_log s\<rparr>;
          s = (if iteration mod 10 = 0
               then emits [ProgressPostfix (ema_loss_for_log s), ProgressUpdate] s else s);
          s = (if iteration = iterations cfg then emit ProgressClose s else s);
          s = (if wandb s then emit (WandbLog (ema_loss_for_log s)) s else s)
      in emit (TrainingReport iteration (photometric_loss e s) loss) s)"

text \<open>Lines 287 to 289, and again lines 326 to 328.\<close>

definition save_checkpoint :: "config \<Rightarrow> int \<Rightarrow> state \<Rightarrow> state" where
  "save_checkpoint cfg iteration s =
     (if iteration \<in> set (checkpoint_iterations cfg) then
        (let s = emit (Print ''Saving Checkpoint'') s;
             s = s\<lparr>files := (files s)(chkpnt_path cfg iteration \<mapsto> (capture s, iteration))\<rparr>
         in emit (SaveCheckpoint (chkpnt_path cfg iteration)) s)
      else s)"

definition accumulate_stats :: "state \<Rightarrow> state" where
  "accumulate_stats s =
     (let s = emits [AddDensificationStatsV3, AddDensificationStatsV4] s
      in if boundary_mode s > 0 then emit AddDensificationStatsV2 s else s)"

definition optimizer_step :: "config \<Rightarrow> int \<Rightarrow> state \<Rightarrow> state" where
  "optimizer_step cfg iteration s =
     (if button_optimize_state s then
        (if iteration < iterations cfg then emits [OptimizerStep, ZeroGradNone] s else s)
      else s)"

definition densify :: "config \<Rightarrow> int \<Rightarrow> state \<Rightarrow> state \<times> outcome" where
  "densify cfg iteration s =
     (if iteration < densify_until_iter cfg then
        (if densification_interval cfg = 0 then (s, Raised ZeroDivisionError)
         else if iteration mod densification_interval cfg = 0 \<and> checkbox_split s then
           (emits [ZeroGrad, DensifyAndPrune,
                   TrainingSetup (position_lr_init s) (Some (learning_rate_value s))] s,
            Returned)
         else (s, Returned))
      else (s, Returned))"

text \<open>Lines 244 to 341, the part of the step under \<^verbatim>\<open>server["button_train_state"]\<close>.\<close>

definition train_body :: "config \<Rightarrow> env \<Rightarrow> int \<Rightarrow> state \<Rightarrow> state \<times> outcome" where
  "train_body cfg e iteration s =
     (if button_train_state s then
        (let s = forward_backward cfg e iteration s;
             s = save_checkpoint cfg iteration s;
             s = accumulate_stats s;
             s = optimizer_step cfg iteration s;
             s = save_checkpoint cfg iteration s
         in densify cfg iteration s)
      else (s, Returned))"

text \<open>
  Lines 343 to 460, the view for the live client. The local \<^verbatim>\<open>edges\<close> is bound only
  by the training part, under \<^verbatim>\<open>boundary_mode > 0\<close>.
\<close>

definition buffer_views :: "string list" where
  "buffer_views =
     [''Depth Map'', ''Segmentation'', ''Colored Boundary Points'', ''Colored UVW'',
      ''debug'', ''GT Image'', ''Surface Normal'', ''Depth Normal'',
      ''Accumulated Gradient Image'', ''Accum_Edge'', ''Accum_Vis'']"

definition publish :: "string option \<Rightarrow> state \<Rightarrow> state" where
  "publish output s = emits [SetBackgroundImage output, SetNumPrimitives, EmptyCache] s"

definition client_view :: "bool \<Rightarrow> string \<Rightarrow> state \<Rightarrow> state \<times> outcome" where
  "client_view edges_bound render_type s =
     (if \<not> has_server s then (s, Returned)
      else
        (let s = emit (RenderClient render_type) s
         in if render_type \<in> set buffer_views then (publish (Some render_type) s, Returned)
            else if render_type = ''edges'' then
              (if edges_bound then (publish (Some render_type) s, Returned)
               else (s, Raised UnboundLocalError))
            else
              (let s = emit (Print (''Unsupported render type: '' @ render_type)) s
               in (publish None s, Returned))))"

text \<open>Lines 188 to 221: the switch at \<^verbatim>\<open>mode2_iters\<close>, the deadline, the three handlers.\<close>

definition mode_phase :: "config \<Rightarrow> int \<Rightarrow> state \<Rightarrow> state" where
  "mode_phase cfg iteration s =
     handle_mode2 cfg (handle_mode1 (handle_mode0 (mode_switch cfg iteration s)))"

text \<open>Lines 227 to 238: the learning rates and the degree of the harmonics.\<close>

definition schedule_phase :: "int \<Rightarrow> state \<Rightarrow> state" where
  "schedule_phase iteration s = sh_up iteration (update_lr iteration s)"

definition train_step :: "config \<Rightarrow> env \<Rightarrow> int \<Rightarrow> state \<Rightarrow> state \<times> outcome" where
  "train_step cfg e iteration s =
     (let s = mode_phase cfg iteration s;
          s = schedule_phase iteration s;
          edges_bound = (button_train_state s \<and> boundary_mode s > 0)
      in case train_body cfg e iteration s of
           (s, Raised err) \<Rightarrow> (s, Raised err)
         | (s, Returned) \<Rightarrow> client_view edges_bound (on_gui_change e) s)"

subsection \<open>Trainer.train_step_3dgs: the baseline point path\<close>

definition gs_loss :: "config \<Rightarrow> env \<Rightarrow> real" where
  "gs_loss cfg e = (1 - lambda_dssim cfg) * l1_loss e + lambda_dssim cfg * (1 - ssim e)"

definition gs_train_body :: "config \<Rightarrow> env \<Rightarrow> int \<Rightarrow> state \<Rightarrow> state \<times> outcome" where
  "gs_train_body cfg e iteration s =
     (if button_train_state s then
        (let s = emit (GsUpdateLearningRate iteration) s;
             s = (if iteration mod 1000 = 0 then emit GsOneUpShDegree s else s);
             s = emit GsRender s;
             loss = gs_loss cfg e;
             s = emit (Backward loss) s;
             s = s\<lparr>ema_loss_for_log := 0.4 * loss + 0.6 * ema_loss_for_log s\<rparr>;
             s = (if iteration mod 10 = 0
                  then emits [ProgressPostfix (ema_loss_for_log s), ProgressUpdate] s else s);
             s = emit GsAddDensificationStats s;
             s = (if iteration > densify_from_iter cfg \<and> iteration mod 100 = 0
                  then emit (GsDensifyAndPrune
                         (if iteration > opacity_reset_interval cfg then Some 20 else None)) s
                  else s)
         in if opacity_reset_interval cfg = 0 then (s, Raised ZeroDivisionError)
            else
              (let s = (if iteration mod opacity_reset_interval cfg = 0
                        then emit GsResetOpacity s else s);
                   s = (if iteration < iterations cfg
                        then emits [GsOptimizerStep, GsZeroGradNone] s else s);
                   s = (if iteration = 7000 then emit GsSavePointcloud s else s)
               in (s, Returned)))
      else (s, Returned))"

text \<open>
  Lines 515 to 565. The local \<^verbatim>\<open>output\<close> is bound by the two branches only; the call
  of \<^verbatim>\<open>set_background_image\<close> reads it in every case.
\<close>

definition gs_client_view :: "state \<Rightarrow> state \<times> outcome" where
  "gs_client_view s =
     (if \<not> has_server s then (s, Returned)
      else
        (let s = emit GsRenderClient s
         in if render_type_value s = ''debug'' then
              (emits [SetBackgroundImage (Some ''debug''), SetNumPrimitives] s, Returned)
            else if render_type_value s = ''GT Image'' then
              (emits [SetBackgroundImage (Some ''GT Image''), SetNumPrimitives] s, Returned)
            else (s, Raised UnboundLocalError)))"

definition train_step_3dgs :: "config \<Rightarrow> env \<Rightarrow> int \<Rightarrow> state \<Rightarrow> state \<times> outcome" where
  "train_step_3dgs cfg e iteration s =
     (case gs_train_body cfg e iteration s of
        (s, Raised err) \<Rightarrow> (s, Raised err)
      | (s, Returned) \<Rightarrow> gs_client_view s)"

subsection \<open>The loop of Trainer.train\<close>

text \<open>The client of the control channel sets controls between two iterations.\<close>

definition gui_update :: "env \<Rightarrow> state \<Rightarrow> state" where
  "gui_update e s =
     (let s = (case gui_mode e of None \<Rightarrow> s | Some m \<Rightarrow> s\<lparr>mode_value := m\<rparr>);
          s = (case gui_train e of None \<Rightarrow> s | Some b \<Rightarrow> s\<lparr>button_train_state := b\<rparr>);
          s = (case gui_optimize e of None \<Rightarrow> s | Some b \<Rightarrow> s\<lparr>button_optimize_state := b\<rparr>);
          s = (case gui_split e of None \<Rightarrow> s | Some b \<Rightarrow> s\<lparr>checkbox_split := b\<rparr>);
          s = (case gui_pts_mode e of None \<Rightarrow> s | Some b \<Rightarrow> s\<lparr>checkbox_pts_mode := b\<rparr>)
      in case gui_render_type e of None \<Rightarrow> s | Some r \<Rightarrow> s\<lparr>render_type_value := r\<rparr>)"

text \<open>The body of the loop, lines 166 to 182.\<close>

definition iteration_body :: "config \<Rightarrow> env \<Rightarrow> int \<Rightarrow> state \<Rightarrow> state \<times> outcome" where
  "iteration_body cfg e iteration s =
     (let s = gui_update e s;
          s = (if iteration - 1 = debug_from cfg then s\<lparr>debug := True\<rparr> else s)
      in if checkbox_pts_mode s then train_step_3dgs cfg e iteration s
         else train_step cfg e iteration s)"

text \<open>
  \<^verbatim>\<open>for iteration in range(...)\<close>: the range is fixed when the loop starts, and an
  exception leaves the loop.
\<close>

fun run_iterations :: "config \<Rightarrow> (int \<Rightarrow> env) \<Rightarrow> int list \<Rightarrow> state \<Rightarrow> state \<times> outcome" where
  "run_iterations cfg envs [] s = (s, Returned)"
| "run_iterations cfg envs (iteration # rest) s =
     (case iteration_body cfg (envs iteration) iteration s of
        (s', Raised err) \<Rightarrow> (s', Raised err)
      | (s', Returned) \<Rightarrow> run_iterations cfg envs rest s')"

text \<open>Lines 151 to 161, before the loop.\<close>

definition train_start :: "config \<Rightarrow> state \<Rightarrow> state" where
  "train_start cfg s =
     (let s = (if \<not> disable_viewer cfg then emit TryConnect s else s\<lparr>has_server := False\<rparr>);
          s = s\<lparr>first_iter := first_iter s + 1\<rparr>
      in if boundary_mode s = 2 then s\<lparr>mode_value := 2\<rparr> else s)"

definition train :: "config \<Rightarrow> (int \<Rightarrow> env) \<Rightarrow> state \<Rightarrow> state \<times> outcome" where
  "train cfg envs s =
     (let s = train_start cfg s
      in run_iterations cfg envs [first_iter s .. iterations cfg] s)"

subsection \<open>The events of one step\<close>

text \<open>The calls made between two states of one run, oldest first.\<close>

definition since :: "state \<Rightarrow> state \<Rightarrow> event list" where
  "since s s' = drop (length (trace s)) (trace s')"

definition grows :: "state \<Rightarrow> state \<Rightarrow> bool" where
  "grows s s' = (trace s' = trace s @ since s s')"

definition step_events :: "config \<Rightarrow> env \<Rightarrow> int \<Rightarrow> state \<Rightarrow> event list" where
  "step_events cfg e iteration s = since s (fst (train_step cfg e iteration s))"

definition step_events_3dgs :: "config \<Rightarrow> env \<Rightarrow> int \<Rightarrow> state \<Rightarrow> event list" where
  "step_events_3dgs cfg e iteration s = since s (fst (train_step_3dgs cfg e iteration s))"

text \<open>The calls that the properties below order: backward pass, optimizer, edit, checkpoint,
  learning rates.\<close>

definition key :: "event \<Rightarrow> bool" where
  "key x =
     (case x of
        Backward _ \<Rightarrow> True | OptimizerStep \<Rightarrow> True | ZeroGrad \<Rightarrow> True
      | DensifyAndPrune \<Rightarrow> True | SaveCheckpoint _ \<Rightarrow> True | UpdateLearningRate _ \<Rightarrow> True
      | _ \<Rightarrow> False)"

definition is_Backward :: "event \<Rightarrow> bool" where
  "is_Backward x = (case x of Backward _ \<Rightarrow> True | _ \<Rightarrow> False)"

definition is_UpdateLearningRate :: "event \<Rightarrow> bool" where
  "is_UpdateLearningRate x = (case x of UpdateLearningRate _ \<Rightarrow> True | _ \<Rightarrow> False)"

subsection \<open>Notions used to state the properties\<close>

definition quiet :: "state \<Rightarrow> state \<Rightarrow> bool" where
  "quiet s s' =
     (button_train_state s' = button_train_state s \<and>
      button_optimize_state s' = button_optimize_state s \<and>
      has_server s' = has_server s \<and>
      ema_loss_for_log s' = ema_loss_for_log s \<and>
      files s' = files s \<and>
      grows s s' \<and> filter key (since s s') = [])"

definition steady :: "state \<Rightarrow> state \<Rightarrow> bool" where
  "steady s s' =
     (mode_value s' = mode_value s \<and>
      checkbox_split s' = checkbox_split s \<and>
      button_train_state s' = button_train_state s \<and>
      button_optimize_state s' = button_optimize_state s \<and>
      has_server s' = has_server s \<and>
      boundary_mode s' = boundary_mode s \<and>
      grows s s')"

definition leads :: "state \<Rightarrow> event list \<Rightarrow> state \<Rightarrow> bool" where
  "leads s ks s' = (steady s s' \<and> filter key (since s s') = ks)"

fun mode_history :: "config \<Rightarrow> (int \<Rightarrow> env) \<Rightarrow> int list \<Rightarrow> state \<Rightarrow> int list" where
  "mode_history cfg envs [] s = []"
| "mode_history cfg envs (iteration # rest) s =
     (case iteration_body cfg (envs iteration) iteration s of
        (s', Raised err) \<Rightarrow> [mode_value s']
      | (s', Returned) \<Rightarrow> mode_value s' # mode_history cfg envs rest s')"

fun channel_keeps_order :: "config \<Rightarrow> (int \<Rightarrow> env) \<Rightarrow> int list \<Rightarrow> state \<Rightarrow> bool" where
  "channel_keeps_order cfg envs [] s = True"
| "channel_keeps_order cfg envs (iteration # rest) s =
     ((case gui_mode (envs iteration) of None \<Rightarrow> True | Some m \<Rightarrow> mode_value s \<le> m \<and> m \<le> 2) \<and>
      (case iteration_body cfg (envs iteration) iteration s of
         (s', Raised err) \<Rightarrow> True
       | (s', Returned) \<Rightarrow> channel_keeps_order cfg envs rest s'))"

definition is_SaveCheckpoint :: "event \<Rightarrow> bool" where
  "is_SaveCheckpoint x = (case x of SaveCheckpoint _ \<Rightarrow> True | _ \<Rightarrow> False)"

definition example_config :: config where
  "example_config =
     \<lparr>iterations = 3, lambda_dssim = 0, densify_until_iter = 10, densification_interval = 2,
      densify_from_iter = 0, opacity_reset_interval = 3000, mode2_iters = 100, fix_iters = 200,
      log_blur_radius_tex = 1, model_path = ''out'', testing_iterations = [],
      checkpoint_iterations = [2, 3], debug_from = - 1, disable_viewer = True\<rparr>"

definition example_state :: state where
  "example_state =
     \<lparr>mode_value = 0, slider_boundary_scale = 0, checkbox_split = True,
      checkbox_pts_mode = False, button_train_state = True, button_optimize_state = True,
      wandb = False, has_server = False, render_type_value = ''debug'',
      learning_rate_value = 1, first_iter = 0, ema_loss_for_log = 0, position_lr_init = 1,
      debug = False, boundary_mode = 0, files = Map.empty, trace = []\<rparr>"

definition example_env :: "real \<Rightarrow> env" where
  "example_env l =
     \<lparr>gui_mode = None, gui_train = None, gui_optimize = None, gui_split = None,
      gui_pts_mode = None, gui_render_type = None, on_gui_change = ''debug'',
      mse_loss = l, l1_loss = l, ssim = 1\<rparr>"

definition loss_envs :: "int \<Rightarrow> env" where
  "loss_envs it = example_env (if it = 1 then 1 else if it = 2 then 0.5 else 0.25)"

definition raising_envs :: "int \<Rightarrow> env" where
  "raising_envs it = (example_env 1)\<lparr>gui_mode := Some (if it = 1 then 1 else 2)\<rparr>"

definition lowering_envs :: "int \<Rightarrow> env" where
  "lowering_envs it = (example_env 1)\<lparr>gui_mode := Some (if it = 1 then 2 else 0)\<rparr>"

definition viewer_state :: state where
  "viewer_state = example_state\<lparr>has_server := True, render_type_value := ''Wireframe''\<rparr>"

definition wireframe_env :: env where
  "wireframe_env = (example_env 1)\<lparr>on_gui_change := ''Wireframe''\<rparr>"

definition finalize_state :: state where
  "finalize_state = example_state\<lparr>mode_value := 2, boundary_mode := 2\<rparr>"

text \<open>The example state in the Refine mode.\<close>

definition refine_state :: state where
  "refine_state = example_state\<lparr>mode_value := 1, boundary_mode := 1\<rparr>"

text \<open>The example configuration with a budget of 30000 iterations.\<close>

definition long_config :: config where
  "long_config = example_config\<lparr>iterations := 30000\<rparr>"

text \<open>A configuration and an iteration in which the terms of the loss all differ.\<close>

definition blend_config :: config where
  "blend_config = example_config\<lparr>lambda_dssim := 0.2\<rparr>"

definition blend_env :: env where
  "blend_env = (example_env 3)\<lparr>mse_loss := 5, ssim := 0.5\<rparr>"

definition is_GsDensifyAndPrune :: "event \<Rightarrow> bool" where
  "is_GsDensifyAndPrune x = (case x of GsDensifyAndPrune _ \<Rightarrow> True | _ \<Rightarrow> False)"

section \<open>Lemmas\<close>

lemma since_append: "trace s' = trace s @ es \<Longrightarrow> since s s' = es"
  by (simp add: since_def)

lemma grows_append: "trace s' = trace s @ es \<Longrightarrow> grows s s'"
  by (simp add: grows_def since_def)

lemma grows_refl: "grows s s"
  by (simp add: grows_def since_def)

lemma since_refl: "since s s = []"
  by (simp add: since_def)

lemma grows_trans:
  assumes "grows a b" and "grows b c"
  shows "grows a c" and "since a c = since a b @ since b c"
proof -
  have "trace c = trace a @ (since a b @ since b c)"
    using assms by (simp add: grows_def)
  then show "grows a c" and "since a c = since a b @ since b c"
    by (rule grows_append, rule since_append)
qed

lemma emit_fields:
  "mode_value (emit x s) = mode_value s"
  "checkbox_split (emit x s) = checkbox_split s"
  "checkbox_pts_mode (emit x s) = checkbox_pts_mode s"
  "button_train_state (emit x s) = button_train_state s"
  "button_optimize_state (emit x s) = button_optimize_state s"
  "has_server (emit x s) = has_server s"
  "render_type_value (emit x s) = render_type_value s"
  "ema_loss_for_log (emit x s) = ema_loss_for_log s"
  "boundary_mode (emit x s) = boundary_mode s"
  "first_iter (emit x s) = first_iter s"
  "files (emit x s) = files s"
  "trace (emit x s) = trace s @ [x]"
  by (simp_all add: emit_def)

lemma emits_fields:
  "mode_value (emits xs s) = mode_value s"
  "checkbox_split (emits xs s) = checkbox_split s"
  "checkbox_pts_mode (emits xs s) = checkbox_pts_mode s"
  "button_train_state (emits xs s) = button_train_state s"
  "button_optimize_state (emits xs s) = button_optimize_state s"
  "has_server (emits xs s) = has_server s"
  "render_type_value (emits xs s) = render_type_value s"
  "ema_loss_for_log (emits xs s) = ema_loss_for_log s"
  "boundary_mode (emits xs s) = boundary_mode s"
  "first_iter (emits xs s) = first_iter s"
  "files (emits xs s) = files s"
  "trace (emits xs s) = trace s @ xs"
  by (simp_all add: emits_def)

lemma quiet_refl: "quiet s s"
  by (simp add: quiet_def grows_refl since_refl)

lemma quiet_trans: "quiet a b \<Longrightarrow> quiet b c \<Longrightarrow> quiet a c"
  unfolding quiet_def using grows_trans [of a b c] by simp

lemma quiet_mode_switch: "quiet s (mode_switch cfg it s)"
  by (simp add: quiet_def mode_switch_def emit_def grows_def since_def key_def Let_def)

lemma quiet_handle_mode0: "quiet s (handle_mode0 s)"
  by (simp add: quiet_def handle_mode0_def mode_def emit_def grows_def since_def key_def Let_def)

lemma quiet_handle_mode1: "quiet s (handle_mode1 s)"
  by (simp add: quiet_def handle_mode1_def mode_def emit_def grows_def since_def key_def Let_def)

lemma quiet_handle_mode2: "quiet s (handle_mode2 cfg s)"
  by (simp add: quiet_def handle_mode2_def mode_def emit_def grows_def since_def key_def Let_def)

lemma quiet_mode_phase: "quiet s (mode_phase cfg it s)"
  unfolding mode_phase_def
  by (rule quiet_trans [OF quiet_trans [OF quiet_trans [OF quiet_mode_switch quiet_handle_mode0]
        quiet_handle_mode1] quiet_handle_mode2])

lemma handle_mode_value:
  "mode_value (handle_mode0 s) = mode_value s"
  "mode_value (handle_mode1 s) = mode_value s"
  "mode_value (handle_mode2 cfg s) = mode_value s"
  by (simp_all add: handle_mode0_def handle_mode1_def handle_mode2_def mode_def emit_def Let_def)

lemma mode_switch_value:
  "mode_value (mode_switch cfg it s) = (if it = mode2_iters cfg then 2 else mode_value s)"
  by (simp add: mode_switch_def emit_def Let_def)

lemma mode_phase_value:
  "mode_value (mode_phase cfg it s) = (if it = mode2_iters cfg then 2 else mode_value s)"
  by (simp add: mode_phase_def handle_mode_value mode_switch_value)

lemma handle_mode_split:
  "checkbox_split (handle_mode0 s) = checkbox_split s"
  "checkbox_split (handle_mode1 s) = checkbox_split s"
  "checkbox_split (handle_mode2 cfg s) \<longrightarrow> checkbox_split s"
  by (simp_all add: handle_mode0_def handle_mode1_def handle_mode2_def mode_def emit_def Let_def)

lemma mode_switch_split:
  "checkbox_split (mode_switch cfg it s) = (checkbox_split s \<and> it \<le> fix_iters cfg)"
  by (simp add: mode_switch_def emit_def Let_def)

lemma mode_phase_split:
  assumes "checkbox_split (mode_phase cfg it s)"
  shows "checkbox_split s" and "it \<le> fix_iters cfg"
proof -
  have "checkbox_split (handle_mode1 (handle_mode0 (mode_switch cfg it s)))"
    using assms handle_mode_split(3) unfolding mode_phase_def by blast
  then have "checkbox_split (mode_switch cfg it s)"
    by (simp add: handle_mode_split)
  then show "checkbox_split s" and "it \<le> fix_iters cfg"
    by (simp_all add: mode_switch_split)
qed

lemma steady_refl: "steady s s"
  by (simp add: steady_def grows_refl)

lemma steady_trans: "steady a b \<Longrightarrow> steady b c \<Longrightarrow> steady a c"
  unfolding steady_def using grows_trans(1) [of a b c] by simp

lemma key_since_trans:
  "grows a b \<Longrightarrow> grows b c \<Longrightarrow>
   filter key (since a c) = filter key (since a b) @ filter key (since b c)"
  by (simp add: grows_trans(2))

lemma steadyD: "steady a b \<Longrightarrow> grows a b"
  by (simp add: steady_def)

lemma update_lr_steady: "steady s (update_lr it s)"
  by (simp add: steady_def update_lr_def emit_def grows_def since_def)

lemma update_lr_key:
  "filter key (since s (update_lr it s)) =
     (if mode_value s = 1 then [UpdateLearningRate it]
      else if it > 15200 then [UpdateLearningRate (it - 15000)] else [])"
  by (simp add: update_lr_def emit_def since_def key_def)

lemma update_lr_keeps:
  "ema_loss_for_log (update_lr it s) = ema_loss_for_log s"
  "files (update_lr it s) = files s"
  by (simp_all add: update_lr_def emit_def)

lemma sh_up_steady: "steady s (sh_up it s)"
  by (simp add: steady_def sh_up_def emit_def grows_def since_def)

lemma sh_up_key: "filter key (since s (sh_up it s)) = []"
  by (simp add: sh_up_def emit_def since_def key_def)

lemma sh_up_keeps:
  "ema_loss_for_log (sh_up it s) = ema_loss_for_log s"
  "files (sh_up it s) = files s"
  by (simp_all add: sh_up_def emit_def)

lemma forward_backward_steady: "steady s (forward_backward cfg e it s)"
  by (simp add: steady_def forward_backward_def emit_def emits_def grows_def since_def Let_def)

lemma forward_backward_key:
  "filter key (since s (forward_backward cfg e it s)) = [Backward (total_loss cfg e s)]"
  by (simp add: forward_backward_def emit_def emits_def since_def key_def Let_def
      total_loss_def photometric_loss_def)

lemma forward_backward_keeps:
  "ema_loss_for_log (forward_backward cfg e it s) =
     0.4 * total_loss cfg e s + 0.6 * ema_loss_for_log s"
  "files (forward_backward cfg e it s) = files s"
  by (simp_all add: forward_backward_def emit_def emits_def Let_def
      total_loss_def photometric_loss_def)

lemma save_checkpoint_steady: "steady s (save_checkpoint cfg it s)"
  by (simp add: steady_def save_checkpoint_def emit_def grows_def since_def Let_def)

lemma save_checkpoint_key:
  "filter key (since s (save_checkpoint cfg it s)) =
     (if it \<in> set (checkpoint_iterations cfg) then [SaveCheckpoint (chkpnt_path cfg it)] else [])"
  by (simp add: save_checkpoint_def emit_def since_def key_def Let_def)

lemma save_checkpoint_keeps:
  "ema_loss_for_log (save_checkpoint cfg it s) = ema_loss_for_log s"
  by (simp_all add: save_checkpoint_def emit_def Let_def)

lemma save_checkpoint_files:
  "it \<in> set (checkpoint_iterations cfg) \<Longrightarrow>
   files (save_checkpoint cfg it s) (chkpnt_path cfg it) =
     Some (capture (emit (Print ''Saving Checkpoint'') s), it)"
  by (simp add: save_checkpoint_def emit_def Let_def capture_def)

lemma accumulate_stats_steady: "steady s (accumulate_stats s)"
  by (simp add: steady_def accumulate_stats_def emit_def emits_def grows_def since_def Let_def)

lemma accumulate_stats_key: "filter key (since s (accumulate_stats s)) = []"
  by (simp add: accumulate_stats_def emit_def emits_def since_def key_def Let_def)

lemma accumulate_stats_keeps:
  "ema_loss_for_log (accumulate_stats s) = ema_loss_for_log s"
  "files (accumulate_stats s) = files s"
  by (simp_all add: accumulate_stats_def emit_def emits_def Let_def)

lemma optimizer_step_steady: "steady s (optimizer_step cfg it s)"
  by (simp add: steady_def optimizer_step_def emits_def grows_def since_def)

lemma optimizer_step_key:
  "filter key (since s (optimizer_step cfg it s)) =
     (if button_optimize_state s \<and> it < iterations cfg then [OptimizerStep] else [])"
  by (simp add: optimizer_step_def emits_def since_def key_def)

lemma optimizer_step_keeps:
  "ema_loss_for_log (optimizer_step cfg it s) = ema_loss_for_log s"
  "files (optimizer_step cfg it s) = files s"
  by (simp_all add: optimizer_step_def emits_def)

lemma densify_steady: "steady s (fst (densify cfg it s))"
  by (simp add: steady_def densify_def emits_def grows_def since_def)

lemma densify_key:
  "filter key (since s (fst (densify cfg it s))) =
     (if it < densify_until_iter cfg \<and> densification_interval cfg \<noteq> 0 \<and>
         it mod densification_interval cfg = 0 \<and> checkbox_split s
      then [ZeroGrad, DensifyAndPrune] else [])"
  by (simp add: densify_def emits_def since_def key_def)

lemma densify_keeps:
  "ema_loss_for_log (fst (densify cfg it s)) = ema_loss_for_log s"
  "files (fst (densify cfg it s)) = files s"
  by (simp_all add: densify_def emits_def)

lemma client_view_steady: "steady s (fst (client_view b r s))"
  by (simp add: steady_def client_view_def publish_def emit_def emits_def grows_def since_def
      Let_def)

lemma client_view_key: "filter key (since s (fst (client_view b r s))) = []"
  by (simp add: client_view_def publish_def emit_def emits_def since_def key_def Let_def)

lemma client_view_keeps:
  "ema_loss_for_log (fst (client_view b r s)) = ema_loss_for_log s"
  "files (fst (client_view b r s)) = files s"
  by (simp_all add: client_view_def publish_def emit_def emits_def Let_def)

lemma leads_trans: "leads a ks b \<Longrightarrow> leads b ks' c \<Longrightarrow> leads a (ks @ ks') c"
  unfolding leads_def using steady_trans [of a b c] key_since_trans [of a b c]
  by (simp add: steadyD)

lemma leadsI: "steady s s' \<Longrightarrow> filter key (since s s') = ks \<Longrightarrow> leads s ks s'"
  by (simp add: leads_def)

lemma train_body_leads:
  "leads s
     (if button_train_state s then
        Backward (total_loss cfg e s) #
        (if it \<in> set (checkpoint_iterations cfg) then [SaveCheckpoint (chkpnt_path cfg it)] else []) @
        (if button_optimize_state s \<and> it < iterations cfg then [OptimizerStep] else []) @
        (if it \<in> set (checkpoint_iterations cfg) then [SaveCheckpoint (chkpnt_path cfg it)] else []) @
        (if it < densify_until_iter cfg \<and> densification_interval cfg \<noteq> 0 \<and>
            it mod densification_interval cfg = 0 \<and> checkbox_split s
         then [ZeroGrad, DensifyAndPrune] else [])
      else [])
     (fst (train_body cfg e it s))"
proof (cases "button_train_state s")
  case False
  then show ?thesis
    by (simp add: train_body_def leads_def steady_refl since_refl)
next
  case True
  define t1 where "t1 = forward_backward cfg e it s"
  define t2 where "t2 = save_checkpoint cfg it t1"
  define t3 where "t3 = accumulate_stats t2"
  define t4 where "t4 = optimizer_step cfg it t3"
  define t5 where "t5 = save_checkpoint cfg it t4"
  define t6 where "t6 = fst (densify cfg it t5)"
  have res: "fst (train_body cfg e it s) = t6"
    using True by (simp add: train_body_def Let_def t1_def t2_def t3_def t4_def t5_def t6_def)
  have l1: "leads s [Backward (total_loss cfg e s)] t1"
    unfolding t1_def by (rule leadsI [OF forward_backward_steady forward_backward_key])
  have l2: "leads t1
      (if it \<in> set (checkpoint_iterations cfg) then [SaveCheckpoint (chkpnt_path cfg it)] else []) t2"
    unfolding t2_def by (rule leadsI [OF save_checkpoint_steady save_checkpoint_key])
  have l3: "leads t2 [] t3"
    unfolding t3_def by (rule leadsI [OF accumulate_stats_steady accumulate_stats_key])
  have l4: "leads t3 (if button_optimize_state t3 \<and> it < iterations cfg then [OptimizerStep] else []) t4"
    unfolding t4_def by (rule leadsI [OF optimizer_step_steady optimizer_step_key])
  have l5: "leads t4
      (if it \<in> set (checkpoint_iterations cfg) then [SaveCheckpoint (chkpnt_path cfg it)] else []) t5"
    unfolding t5_def by (rule leadsI [OF save_checkpoint_steady save_checkpoint_key])
  have l6: "leads t5
      (if it < densify_until_iter cfg \<and> densification_interval cfg \<noteq> 0 \<and>
          it mod densification_interval cfg = 0 \<and> checkbox_split t5
       then [ZeroGrad, DensifyAndPrune] else []) t6"
    unfolding t6_def by (rule leadsI [OF densify_steady densify_key])
  note l13 = leads_trans [OF l1 leads_trans [OF l2 l3]]
  note l15 = leads_trans [OF l13 leads_trans [OF l4 l5]]
  note l16 = leads_trans [OF l15 l6]
  have e3: "button_optimize_state t3 = button_optimize_state s"
    using l13 by (simp add: leads_def steady_def)
  have e5: "checkbox_split t5 = checkbox_split s"
    using l15 by (simp add: leads_def steady_def)
  show ?thesis
    using l16 True by (simp add: res e3 e5)
qed

lemma train_body_ema:
  "ema_loss_for_log (fst (train_body cfg e it s)) =
     (if button_train_state s then 0.4 * total_loss cfg e s + 0.6 * ema_loss_for_log s
      else ema_loss_for_log s)"
  by (simp add: train_body_def Let_def densify_keeps save_checkpoint_keeps optimizer_step_keeps
      accumulate_stats_keeps forward_backward_keeps)

lemma schedule_phase_leads:
  "leads s
     (if mode_value s = 1 then [UpdateLearningRate it]
      else if it > 15200 then [UpdateLearningRate (it - 15000)] else [])
     (schedule_phase it s)"
  unfolding schedule_phase_def
  using leads_trans [OF leadsI [OF update_lr_steady update_lr_key]
      leadsI [OF sh_up_steady sh_up_key], of s it it]
  by simp

lemma schedule_phase_keeps:
  "ema_loss_for_log (schedule_phase it s) = ema_loss_for_log s"
  "files (schedule_phase it s) = files s"
  by (simp_all add: schedule_phase_def sh_up_keeps update_lr_keeps)

lemma train_step_fst:
  "fst (train_step cfg e it s) =
     (let s2 = schedule_phase it (mode_phase cfg it s);
          b = train_body cfg e it s2
      in case snd b of
           Raised err \<Rightarrow> fst b
         | Returned \<Rightarrow>
             fst (client_view (button_train_state s2 \<and> boundary_mode s2 > 0) (on_gui_change e)
                    (fst b)))"
  by (simp add: train_step_def Let_def split: prod.splits outcome.splits)

lemma train_step_tail:
  assumes "b = fst (train_body cfg e it (schedule_phase it (mode_phase cfg it s)))"
  shows "leads b [] (fst (train_step cfg e it s))"
    and "ema_loss_for_log (fst (train_step cfg e it s)) = ema_loss_for_log b"
    and "files (fst (train_step cfg e it s)) = files b"
proof -
  let ?o = "snd (train_body cfg e it (schedule_phase it (mode_phase cfg it s)))"
  show "leads b [] (fst (train_step cfg e it s))"
    by (cases ?o)
       (simp_all add: train_step_fst Let_def assms leads_def steady_refl since_refl
          client_view_steady client_view_key)
  show "ema_loss_for_log (fst (train_step cfg e it s)) = ema_loss_for_log b"
    by (cases ?o) (simp_all add: train_step_fst Let_def assms client_view_keeps)
  show "files (fst (train_step cfg e it s)) = files b"
    by (cases ?o) (simp_all add: train_step_fst Let_def assms client_view_keeps)
qed

lemma step_key:
  "filter key (step_events cfg e it s) =
     (if (if it = mode2_iters cfg then 2 else mode_value s) = 1 then [UpdateLearningRate it]
      else if it > 15200 then [UpdateLearningRate (it - 15000)] else []) @
     (if button_train_state s then
        Backward (lerp (if (if it = mode2_iters cfg then 2 else mode_value s) < 2
                        then mse_loss e else l1_loss e) (1 - ssim e) (lambda_dssim cfg)) #
        (if it \<in> set (checkpoint_iterations cfg) then [SaveCheckpoint (chkpnt_path cfg it)] else []) @
        (if button_optimize_state s \<and> it < iterations cfg then [OptimizerStep] else []) @
        (if it \<in> set (checkpoint_iterations cfg) then [SaveCheckpoint (chkpnt_path cfg it)] else []) @
        (if it < densify_until_iter cfg \<and> densification_interval cfg \<noteq> 0 \<and>
            it mod densification_interval cfg = 0 \<and> checkbox_split (mode_phase cfg it s)
         then [ZeroGrad, DensifyAndPrune] else [])
      else [])"
proof -
  define s1 where "s1 = mode_phase cfg it s"
  define s2 where "s2 = schedule_phase it s1"
  define b where "b = fst (train_body cfg e it s2)"
  define s' where "s' = fst (train_step cfg e it s)"
  have q: "quiet s s1"
    unfolding s1_def by (rule quiet_mode_phase)
  have m1: "mode_value s1 = (if it = mode2_iters cfg then 2 else mode_value s)"
    unfolding s1_def by (rule mode_phase_value)
  have l2: "leads s1
      (if mode_value s1 = 1 then [UpdateLearningRate it]
       else if it > 15200 then [UpdateLearningRate (it - 15000)] else []) s2"
    unfolding s2_def by (rule schedule_phase_leads)
  note l3 = train_body_leads [of s2 cfg e it, folded b_def]
  have l4: "leads b [] s'"
    unfolding s'_def by (rule train_step_tail(1)) (simp add: b_def s2_def s1_def)
  note l14 = leads_trans [OF l2 leads_trans [OF l3 l4]]
  have e2: "mode_value s2 = mode_value s1" "checkbox_split s2 = checkbox_split s1"
    "button_train_state s2 = button_train_state s" "button_optimize_state s2 = button_optimize_state s"
    using l2 q by (simp_all add: leads_def steady_def quiet_def)
  have "filter key (since s s') = filter key (since s s1) @ filter key (since s1 s')"
    using q l14 by (intro key_since_trans) (simp_all add: quiet_def leads_def steady_def)
  also have "filter key (since s s1) = []"
    using q by (simp add: quiet_def)
  finally show ?thesis
    using l14
    by (simp add: leads_def step_events_def s'_def [symmetric] e2 m1 total_loss_def
        photometric_loss_def s1_def [symmetric])
qed

lemma step_ema:
  "ema_loss_for_log (fst (train_step cfg e it s)) =
     (if button_train_state s then
        0.4 * lerp (if (if it = mode2_iters cfg then 2 else mode_value s) < 2
                    then mse_loss e else l1_loss e) (1 - ssim e) (lambda_dssim cfg)
        + 0.6 * ema_loss_for_log s
      else ema_loss_for_log s)"
proof -
  define s1 where "s1 = mode_phase cfg it s"
  define s2 where "s2 = schedule_phase it s1"
  have q: "quiet s s1"
    unfolding s1_def by (rule quiet_mode_phase)
  have m1: "mode_value s1 = (if it = mode2_iters cfg then 2 else mode_value s)"
    unfolding s1_def by (rule mode_phase_value)
  have e2: "mode_value s2 = mode_value s1" "button_train_state s2 = button_train_state s"
    "ema_loss_for_log s2 = ema_loss_for_log s"
    using schedule_phase_leads [of s1 it] q
    by (simp_all add: leads_def steady_def quiet_def s2_def schedule_phase_keeps)
  have "ema_loss_for_log (fst (train_step cfg e it s)) =
        ema_loss_for_log (fst (train_body cfg e it s2))"
    by (rule train_step_tail(2)) (simp add: s2_def s1_def)
  then show ?thesis
    by (simp add: train_body_ema e2 m1 total_loss_def photometric_loss_def)
qed

lemma step_steady: "steady (mode_phase cfg it s) (fst (train_step cfg e it s))"
proof -
  define s1 where "s1 = mode_phase cfg it s"
  define s2 where "s2 = schedule_phase it s1"
  define b where "b = fst (train_body cfg e it s2)"
  have "steady s1 s2"
    using schedule_phase_leads [of s1 it] by (simp add: leads_def s2_def)
  moreover have "steady s2 b"
    using train_body_leads [of s2 cfg e it] by (simp add: leads_def b_def)
  moreover have "steady b (fst (train_step cfg e it s))"
    using train_step_tail(1) [of b cfg e it s] by (simp add: leads_def b_def s2_def s1_def)
  ultimately show ?thesis
    unfolding s1_def by (blast intro: steady_trans)
qed

lemma step_controls:
  "mode_value (fst (train_step cfg e it s)) = (if it = mode2_iters cfg then 2 else mode_value s)"
  "checkbox_split (fst (train_step cfg e it s)) = checkbox_split (mode_phase cfg it s)"
  using step_steady [of cfg it s e] by (simp_all add: steady_def mode_phase_value)

lemma filter_key_sub: "(\<And>x. P x \<Longrightarrow> key x) \<Longrightarrow> filter P xs = filter P (filter key xs)"
  by (induction xs) auto

lemma mem_key: "key x \<Longrightarrow> x \<in> set xs \<longleftrightarrow> x \<in> set (filter key xs)"
  by simp

lemma gs_train_body_keeps:
  "mode_value (fst (gs_train_body cfg e it s)) = mode_value s"
  "ema_loss_for_log (fst (gs_train_body cfg e it s)) =
     (if button_train_state s then 0.4 * gs_loss cfg e + 0.6 * ema_loss_for_log s
      else ema_loss_for_log s)"
  by (simp_all add: gs_train_body_def emit_def emits_def Let_def)

lemma gs_client_view_keeps:
  "mode_value (fst (gs_client_view s)) = mode_value s"
  "ema_loss_for_log (fst (gs_client_view s)) = ema_loss_for_log s"
  by (simp_all add: gs_client_view_def emit_def emits_def Let_def)

lemma train_step_3dgs_fst:
  "fst (train_step_3dgs cfg e it s) =
     (case snd (gs_train_body cfg e it s) of
        Raised err \<Rightarrow> fst (gs_train_body cfg e it s)
      | Returned \<Rightarrow> fst (gs_client_view (fst (gs_train_body cfg e it s))))"
  by (simp add: train_step_3dgs_def split: prod.splits outcome.splits)

lemma gs_step_keeps:
  "mode_value (fst (train_step_3dgs cfg e it s)) = mode_value s"
  "ema_loss_for_log (fst (train_step_3dgs cfg e it s)) =
     (if button_train_state s then 0.4 * gs_loss cfg e + 0.6 * ema_loss_for_log s
      else ema_loss_for_log s)"
  by (cases "snd (gs_train_body cfg e it s)";
      simp add: train_step_3dgs_fst gs_train_body_keeps gs_client_view_keeps)+

lemma gui_update_mode:
  "mode_value (gui_update e s) = (case gui_mode e of None \<Rightarrow> mode_value s | Some m \<Rightarrow> m)"
  by (simp add: gui_update_def Let_def split: option.splits)

lemma iteration_body_mode:
  "mode_value (fst (iteration_body cfg e it s)) =
     (if \<not> checkbox_pts_mode (gui_update e s) \<and> it = mode2_iters cfg then 2
      else case gui_mode e of None \<Rightarrow> mode_value s | Some m \<Rightarrow> m)"
  by (simp add: iteration_body_def Let_def gs_step_keeps step_controls gui_update_mode)

lemma iteration_body_order:
  assumes "case gui_mode e of None \<Rightarrow> True | Some m \<Rightarrow> mode_value s \<le> m \<and> m \<le> 2"
    and "mode_value s \<le> 2"
  shows "mode_value s \<le> mode_value (fst (iteration_body cfg e it s))"
    and "mode_value (fst (iteration_body cfg e it s)) \<le> 2"
  using assms by (simp_all add: iteration_body_mode split: option.splits)

lemma mode_history_order:
  "channel_keeps_order cfg envs its s \<Longrightarrow> mode_value s \<le> 2 \<Longrightarrow>
   sorted (mode_history cfg envs its s) \<and>
   (\<forall>m \<in> set (mode_history cfg envs its s). mode_value s \<le> m \<and> m \<le> 2)"
proof (induction its arbitrary: s)
  case Nil
  then show ?case by simp
next
  case (Cons it rest)
  obtain s' r where b: "iteration_body cfg (envs it) it s = (s', r)"
    by (cases "iteration_body cfg (envs it) it s")
  have g: "case gui_mode (envs it) of None \<Rightarrow> True | Some m \<Rightarrow> mode_value s \<le> m \<and> m \<le> 2"
    using Cons.prems(1) by simp
  have le: "mode_value s \<le> mode_value s'" "mode_value s' \<le> 2"
    using iteration_body_order [OF g Cons.prems(2), of cfg it] by (simp_all add: b)
  show ?case
  proof (cases r)
    case (Raised err)
    then show ?thesis using le by (simp add: b)
  next
    case Returned
    then have "channel_keeps_order cfg envs rest s'"
      using Cons.prems(1) by (simp add: b)
    from Cons.IH [OF this le(2)] show ?thesis
      using le Returned by (auto simp add: b)
  qed
qed

lemmas example_defs = example_config_def example_state_def example_env_def

lemma step_has_optimizer_step:
  "OptimizerStep \<in> set (step_events cfg e it s) \<longleftrightarrow>
   button_train_state s \<and> button_optimize_state s \<and> it < iterations cfg"
proof -
  have "OptimizerStep \<in> set (step_events cfg e it s) \<longleftrightarrow>
        OptimizerStep \<in> set (filter key (step_events cfg e it s))"
    by (simp add: key_def)
  then show ?thesis
    unfolding step_key by simp
qed

lemma step_has_densify:
  "DensifyAndPrune \<in> set (step_events cfg e it s) \<longleftrightarrow>
   button_train_state s \<and> it < densify_until_iter cfg \<and> densification_interval cfg \<noteq> 0 \<and>
   it mod densification_interval cfg = 0 \<and> checkbox_split (mode_phase cfg it s)"
proof -
  have "DensifyAndPrune \<in> set (step_events cfg e it s) \<longleftrightarrow>
        DensifyAndPrune \<in> set (filter key (step_events cfg e it s))"
    by (simp add: key_def)
  then show ?thesis
    unfolding step_key by simp
qed

lemma step_backward:
  "filter is_Backward (step_events cfg e it s) =
     (if button_train_state s then
        [Backward (lerp (if (if it = mode2_iters cfg then 2 else mode_value s) < 2
                         then mse_loss e else l1_loss e) (1 - ssim e) (lambda_dssim cfg))]
      else [])"
proof -
  have "filter is_Backward (step_events cfg e it s) =
        filter is_Backward (filter key (step_events cfg e it s))"
    by (rule filter_key_sub) (simp add: key_def is_Backward_def split: event.splits)
  then show ?thesis
    unfolding step_key by (simp add: is_Backward_def)
qed

lemma step_learning_rate:
  "filter is_UpdateLearningRate (step_events cfg e it s) =
     (if (if it = mode2_iters cfg then 2 else mode_value s) = 1 then [UpdateLearningRate it]
      else if it > 15200 then [UpdateLearningRate (it - 15000)] else [])"
proof -
  have "filter is_UpdateLearningRate (step_events cfg e it s) =
        filter is_UpdateLearningRate (filter key (step_events cfg e it s))"
    by (rule filter_key_sub) (simp add: key_def is_UpdateLearningRate_def split: event.splits)
  then show ?thesis
    unfolding step_key by (simp add: is_UpdateLearningRate_def)
qed

lemma step_edit_order:
  "filter (\<lambda>x. is_Backward x \<or> x = OptimizerStep \<or> x = ZeroGrad \<or> x = DensifyAndPrune)
     (step_events cfg e it s) =
     (if button_train_state s then
        Backward (lerp (if (if it = mode2_iters cfg then 2 else mode_value s) < 2
                        then mse_loss e else l1_loss e) (1 - ssim e) (lambda_dssim cfg)) #
        (if button_optimize_state s \<and> it < iterations cfg then [OptimizerStep] else []) @
        (if it < densify_until_iter cfg \<and> densification_interval cfg \<noteq> 0 \<and>
            it mod densification_interval cfg = 0 \<and> checkbox_split (mode_phase cfg it s)
         then [ZeroGrad, DensifyAndPrune] else [])
      else [])"
proof -
  let ?P = "\<lambda>x. is_Backward x \<or> x = OptimizerStep \<or> x = ZeroGrad \<or> x = DensifyAndPrune"
  have "filter ?P (step_events cfg e it s) = filter ?P (filter key (step_events cfg e it s))"
    by (rule filter_key_sub) (auto simp add: key_def is_Backward_def split: event.splits)
  then show ?thesis
    unfolding step_key by (simp add: is_Backward_def)
qed

lemma step_checkpoint_order:
  "filter (\<lambda>x. x = OptimizerStep \<or> is_SaveCheckpoint x) (step_events cfg e it s) =
     (if button_train_state s then
        (if it \<in> set (checkpoint_iterations cfg) then [SaveCheckpoint (chkpnt_path cfg it)] else []) @
        (if button_optimize_state s \<and> it < iterations cfg then [OptimizerStep] else []) @
        (if it \<in> set (checkpoint_iterations cfg) then [SaveCheckpoint (chkpnt_path cfg it)] else [])
      else [])"
proof -
  let ?P = "\<lambda>x. x = OptimizerStep \<or> is_SaveCheckpoint x"
  have "filter ?P (step_events cfg e it s) = filter ?P (filter key (step_events cfg e it s))"
    by (rule filter_key_sub) (auto simp add: key_def is_SaveCheckpoint_def split: event.splits)
  then show ?thesis
    unfolding step_key by (simp add: is_SaveCheckpoint_def)
qed

lemma example_split: "checkbox_split (mode_phase example_config 2 example_state)"
  by (simp add: example_defs mode_phase_def mode_switch_def handle_mode0_def handle_mode1_def
      handle_mode2_def mode_def emit_def Let_def)

lemmas run_defs =
  iteration_body_def gui_update_def train_step_def mode_phase_def schedule_phase_def
  mode_switch_def handle_mode0_def handle_mode1_def handle_mode2_def update_lr_def sh_up_def
  train_body_def forward_backward_def save_checkpoint_def accumulate_stats_def
  optimizer_step_def densify_def client_view_def publish_def emit_def emits_def mode_def
  total_loss_def photometric_loss_def lerp_def capture_def
  train_step_3dgs_def gs_train_body_def gs_client_view_def gs_loss_def Let_def

lemma upto_optimizer_leads:
  "leads s
     (Backward (total_loss cfg e s) #
      (if it \<in> set (checkpoint_iterations cfg) then [SaveCheckpoint (chkpnt_path cfg it)] else []) @
      (if button_optimize_state s \<and> it < iterations cfg then [OptimizerStep] else []))
     (optimizer_step cfg it (accumulate_stats (save_checkpoint cfg it (forward_backward cfg e it s))))"
proof -
  define t1 where "t1 = forward_backward cfg e it s"
  define t2 where "t2 = save_checkpoint cfg it t1"
  define t3 where "t3 = accumulate_stats t2"
  define t4 where "t4 = optimizer_step cfg it t3"
  have l1: "leads s [Backward (total_loss cfg e s)] t1"
    unfolding t1_def by (rule leadsI [OF forward_backward_steady forward_backward_key])
  have l2: "leads t1
      (if it \<in> set (checkpoint_iterations cfg) then [SaveCheckpoint (chkpnt_path cfg it)] else []) t2"
    unfolding t2_def by (rule leadsI [OF save_checkpoint_steady save_checkpoint_key])
  have l3: "leads t2 [] t3"
    unfolding t3_def by (rule leadsI [OF accumulate_stats_steady accumulate_stats_key])
  have l4: "leads t3 (if button_optimize_state t3 \<and> it < iterations cfg then [OptimizerStep] else []) t4"
    unfolding t4_def by (rule leadsI [OF optimizer_step_steady optimizer_step_key])
  note l13 = leads_trans [OF l1 leads_trans [OF l2 l3]]
  have e3: "button_optimize_state t3 = button_optimize_state s"
    using l13 by (simp add: leads_def steady_def)
  have "leads s
     (Backward (total_loss cfg e s) #
      (if it \<in> set (checkpoint_iterations cfg) then [SaveCheckpoint (chkpnt_path cfg it)] else []) @
      (if button_optimize_state s \<and> it < iterations cfg then [OptimizerStep] else [])) t4"
    using leads_trans [OF l13 l4] by (simp add: e3)
  then show ?thesis
    by (simp only: t4_def t3_def t2_def t1_def)
qed

lemma train_body_snapshot:
  assumes "button_train_state s" and "it \<in> set (checkpoint_iterations cfg)"
  shows "\<exists>t. files (fst (train_body cfg e it s)) (chkpnt_path cfg it) = Some (capture t, it) \<and>
           grows s t \<and>
           filter key (since s t) =
             Backward (total_loss cfg e s) # SaveCheckpoint (chkpnt_path cfg it) #
             (if button_optimize_state s \<and> it < iterations cfg then [OptimizerStep] else [])"
proof -
  define t4 where
    "t4 = optimizer_step cfg it (accumulate_stats (save_checkpoint cfg it (forward_backward cfg e it s)))"
  define t where "t = emit (Print ''Saving Checkpoint'') t4"
  have l: "leads s
      (Backward (total_loss cfg e s) # SaveCheckpoint (chkpnt_path cfg it) #
       (if button_optimize_state s \<and> it < iterations cfg then [OptimizerStep] else [])) t4"
    using upto_optimizer_leads [of s cfg e it] assms(2) by (simp add: t4_def)
  have g: "grows t4 t" and k: "filter key (since t4 t) = []"
    by (simp_all add: t_def emit_def grows_def since_def key_def)
  have f: "files (fst (train_body cfg e it s)) (chkpnt_path cfg it) = Some (capture t, it)"
    using assms by (simp add: train_body_def Let_def densify_keeps save_checkpoint_files t_def t4_def)
  have g4: "grows s t4" and k4: "filter key (since s t4) =
      Backward (total_loss cfg e s) # SaveCheckpoint (chkpnt_path cfg it) #
      (if button_optimize_state s \<and> it < iterations cfg then [OptimizerStep] else [])"
    using l by (simp_all add: leads_def steady_def)
  have "grows s t"
    using g4 g by (rule grows_trans(1))
  moreover have "filter key (since s t) = filter key (since s t4) @ filter key (since t4 t)"
    using g4 g by (rule key_since_trans)
  ultimately show ?thesis
    using f k k4 by auto
qed

lemma step_snapshot:
  assumes "button_train_state s" and "it \<in> set (checkpoint_iterations cfg)"
  shows "\<exists>t. files (fst (train_step cfg e it s)) (chkpnt_path cfg it) = Some (capture t, it) \<and>
           filter (\<lambda>x. x = OptimizerStep \<or> x = DensifyAndPrune \<or> is_SaveCheckpoint x) (since s t) =
             SaveCheckpoint (chkpnt_path cfg it) #
             (if button_optimize_state s \<and> it < iterations cfg then [OptimizerStep] else [])"
proof -
  let ?P = "\<lambda>x. x = OptimizerStep \<or> x = DensifyAndPrune \<or> is_SaveCheckpoint x"
  define s1 where "s1 = mode_phase cfg it s"
  define s2 where "s2 = schedule_phase it s1"
  have q: "quiet s s1"
    unfolding s1_def by (rule quiet_mode_phase)
  have l2: "leads s1
      (if mode_value s1 = 1 then [UpdateLearningRate it]
       else if it > 15200 then [UpdateLearningRate (it - 15000)] else []) s2"
    unfolding s2_def by (rule schedule_phase_leads)
  have e2: "button_train_state s2 = button_train_state s"
    "button_optimize_state s2 = button_optimize_state s"
    using l2 q by (simp_all add: leads_def steady_def quiet_def)
  have g2: "grows s s2"
    using q l2 grows_trans(1) [of s s1 s2] by (simp add: quiet_def leads_def steady_def)
  have k2: "filter ?P (since s s2) = []"
  proof -
    have "filter key (since s s2) = filter key (since s s1) @ filter key (since s1 s2)"
      using q l2 by (intro key_since_trans) (simp_all add: quiet_def leads_def steady_def)
    then have "filter ?P (filter key (since s s2)) = []"
      using q l2 by (simp add: quiet_def leads_def is_SaveCheckpoint_def)
    moreover have "filter ?P (since s s2) = filter ?P (filter key (since s s2))"
      by (rule filter_key_sub) (auto simp add: key_def is_SaveCheckpoint_def split: event.splits)
    ultimately show ?thesis by simp
  qed
  obtain t where t: "files (fst (train_body cfg e it s2)) (chkpnt_path cfg it) = Some (capture t, it)"
    "grows s2 t"
    "filter key (since s2 t) =
       Backward (total_loss cfg e s2) # SaveCheckpoint (chkpnt_path cfg it) #
       (if button_optimize_state s2 \<and> it < iterations cfg then [OptimizerStep] else [])"
    using train_body_snapshot [of s2 it cfg e] assms by (auto simp add: e2)
  have "filter ?P (since s2 t) = filter ?P (filter key (since s2 t))"
    by (rule filter_key_sub) (auto simp add: key_def is_SaveCheckpoint_def split: event.splits)
  then have k: "filter ?P (since s2 t) =
      SaveCheckpoint (chkpnt_path cfg it) #
      (if button_optimize_state s \<and> it < iterations cfg then [OptimizerStep] else [])"
    by (simp add: t(3) e2 is_SaveCheckpoint_def)
  have "since s t = since s s2 @ since s2 t"
    using g2 t(2) by (rule grows_trans(2))
  then have "filter ?P (since s t) =
      SaveCheckpoint (chkpnt_path cfg it) #
      (if button_optimize_state s \<and> it < iterations cfg then [OptimizerStep] else [])"
    by (simp add: k k2)
  moreover have "files (fst (train_step cfg e it s)) = files (fst (train_body cfg e it s2))"
    by (rule train_step_tail(3)) (simp add: s2_def s1_def)
  ultimately show ?thesis
    using t(1) by auto
qed

lemmas more_defs = finalize_state_def refine_state_def long_config_def blend_config_def
  blend_env_def

section \<open>The properties\<close>

text \<open>
  Claim C2, as amended. In a step of the primitive path in which \<^verbatim>\<open>densify_and_prune\<close>
  is called, the backward pass comes first, then the optimizer step (when the optimizer
  control is set and the iteration is below the budget), then \<^verbatim>\<open>optimizer.zero_grad()\<close> and
  right after it the edit. The edit is after the optimizer step, not between the backward
  pass and the optimizer step.
\<close>

theorem edit_after_optimizer_step:
  "DensifyAndPrune \<in> set (step_events cfg e it s) \<Longrightarrow>
   filter (\<lambda>x. is_Backward x \<or> x = OptimizerStep \<or> x = ZeroGrad \<or> x = DensifyAndPrune)
     (step_events cfg e it s) =
     Backward (lerp (if (if it = mode2_iters cfg then 2 else mode_value s) < 2
                     then mse_loss e else l1_loss e) (1 - ssim e) (lambda_dssim cfg)) #
     (if button_optimize_state s \<and> it < iterations cfg then [OptimizerStep] else []) @
     [ZeroGrad, DensifyAndPrune]"
  unfolding step_edit_order step_has_densify by simp

theorem edit_after_optimizer_step_witness:
  "DensifyAndPrune \<in> set (step_events example_config (example_env 1) 2 example_state) \<and>
   filter (\<lambda>x. is_Backward x \<or> x = OptimizerStep \<or> x = ZeroGrad \<or> x = DensifyAndPrune)
     (step_events example_config (example_env 1) 2 example_state) =
     [Backward 1, OptimizerStep, ZeroGrad, DensifyAndPrune]"
proof -
  have d: "DensifyAndPrune \<in> set (step_events example_config (example_env 1) 2 example_state)"
    using example_split by (simp add: step_has_densify) (simp add: example_defs)
  show ?thesis
    using d edit_after_optimizer_step [OF d] by (simp add: example_defs lerp_def)
qed

text \<open>
  Claim C2 as stated fails: at iteration 2 of the example run the optimizer step precedes
  the edit.
\<close>

theorem edit_between_backward_and_step_counterexample:
  "filter (\<lambda>x. x = OptimizerStep \<or> x = DensifyAndPrune)
     (filter (\<lambda>x. is_Backward x \<or> x = OptimizerStep \<or> x = ZeroGrad \<or> x = DensifyAndPrune)
        (step_events example_config (example_env 1) 2 example_state)) =
     [OptimizerStep, DensifyAndPrune]"
  unfolding step_edit_order using example_split by (simp add: example_defs)

text \<open>
  Claim C3, as amended. A step of the primitive path calls the optimizer step exactly when
  the training control is set, the optimizer control is set and the iteration is strictly
  below the iteration budget.
\<close>

theorem optimizer_step_guard:
  "OptimizerStep \<in> set (step_events cfg e it s) \<longleftrightarrow>
   button_train_state s \<and> button_optimize_state s \<and> it < iterations cfg"
  by (rule step_has_optimizer_step)

theorem optimizer_step_guard_witness:
  "button_train_state example_state \<and> button_optimize_state example_state \<and>
   1 < iterations example_config \<and>
   OptimizerStep \<in> set (step_events example_config (example_env 1) 1 example_state)"
  using optimizer_step_guard [of example_config "example_env 1" 1 example_state]
  by (simp add: example_defs)

text \<open>
  Claim C3 as stated fails: in the last iteration of the example run both controls are
  set and the optimizer step is not called.
\<close>

theorem optimizer_step_last_iteration_counterexample:
  "button_train_state example_state \<and> button_optimize_state example_state \<and>
   OptimizerStep \<notin> set (step_events example_config (example_env 1) 3 example_state)"
  using step_has_optimizer_step [of example_config "example_env 1" 3 example_state]
  by (simp add: example_defs)

text \<open>
  Claim C5, as amended. When the training control is set, the loss that a step of the
  primitive path backpropagates is \<open>lerp p (1 - ssim) lambda_dssim\<close>, where the photometric
  term \<open>p\<close> is the mean squared error when the mode that the step reads is below 2 and the
  L1 loss otherwise. The mode that the step reads is 2 at iteration \<^verbatim>\<open>mode2_iters\<close> and the
  value of the mode control otherwise.
\<close>

theorem composite_loss:
  "button_train_state s \<Longrightarrow>
   filter is_Backward (step_events cfg e it s) =
     [Backward (lerp (if (if it = mode2_iters cfg then 2 else mode_value s) < 2
                      then mse_loss e else l1_loss e) (1 - ssim e) (lambda_dssim cfg))]"
  by (simp add: step_backward)

theorem composite_loss_witness:
  "button_train_state example_state \<and> button_train_state finalize_state \<and>
   filter is_Backward (step_events blend_config blend_env 1 example_state) = [Backward 4.1] \<and>
   filter is_Backward (step_events blend_config blend_env 1 finalize_state) = [Backward 2.5]"
  using composite_loss [of example_state blend_config blend_env 1]
    composite_loss [of finalize_state blend_config blend_env 1]
  by (simp add: example_defs more_defs lerp_def)

text \<open>
  Claim C5 as stated fails in the iterations that run the baseline point path: there the
  loss is \<open>(1 - lambda_dssim) * l1 + lambda_dssim * (1 - ssim)\<close> in every mode. In mode 0,
  with a mean squared error of 5, an L1 loss of 3, a similarity of 0.5 and a weight of 0.2,
  the step backpropagates 2.5, where the formula with the mean squared error gives 4.1.
\<close>

theorem baseline_loss_counterexample:
  "button_train_state example_state \<and> mode_value example_state < 2 \<and>
   lerp (mse_loss blend_env) (1 - ssim blend_env) (lambda_dssim blend_config) = 4.1 \<and>
   filter is_Backward (step_events_3dgs blend_config blend_env 1 example_state) = [Backward 2.5]"
  by (simp add: run_defs example_defs more_defs step_events_3dgs_def since_def is_Backward_def)

text \<open>
  Claim C7, as amended. A step of the primitive path updates the learning rates at most
  once. In the Refine mode the update is at the raw iteration. In every other mode there
  is an update only above iteration 15200, and it is at \<open>iteration - 15000\<close>: the origin is
  the constant 15000, whatever the iteration \<^verbatim>\<open>mode2_iters\<close> at which Finalize is entered.
\<close>

theorem learning_rate_origin:
  "filter is_UpdateLearningRate (step_events cfg e it s) =
     (if (if it = mode2_iters cfg then 2 else mode_value s) = 1 then [UpdateLearningRate it]
      else if it > 15200 then [UpdateLearningRate (it - 15000)] else [])"
  by (rule step_learning_rate)

theorem learning_rate_origin_witness:
  "filter is_UpdateLearningRate (step_events long_config (example_env 1) 15201 finalize_state) =
     [UpdateLearningRate 201] \<and>
   filter is_UpdateLearningRate (step_events long_config (example_env 1) 101 finalize_state) = [] \<and>
   filter is_UpdateLearningRate (step_events long_config (example_env 1) 101 refine_state) =
     [UpdateLearningRate 101]"
  using learning_rate_origin [of long_config "example_env 1" 15201 finalize_state]
    learning_rate_origin [of long_config "example_env 1" 101 finalize_state]
    learning_rate_origin [of long_config "example_env 1" 101 refine_state]
  by (simp add: example_defs more_defs)

text \<open>
  Claim C7 as stated fails. The step that enters Refine sets the optimizer up again and
  then updates the learning rates at the raw iteration 5. With \<^verbatim>\<open>mode2_iters\<close> at 20000,
  the step that enters Finalize updates them at 5000, not at 0. With \<^verbatim>\<open>mode2_iters\<close> at
  100, the step that enters Finalize does not update them at all. A step of the baseline
  point path updates them at the raw iteration.
\<close>

theorem learning_rate_restart_counterexample:
  "filter (\<lambda>x. is_UpdateLearningRate x \<or> x = ModeCall 1 \<or> x = TrainingSetup 1 None)
     (step_events long_config (example_env 1) 5 (example_state\<lparr>mode_value := 1\<rparr>)) =
     [ModeCall 1, TrainingSetup 1 None, UpdateLearningRate 5] \<and>
   filter (\<lambda>x. is_UpdateLearningRate x \<or> x = ModeCall 2 \<or> x = TrainingSetup 1 None)
     (step_events (long_config\<lparr>mode2_iters := 20000\<rparr>) (example_env 1) 20000 refine_state) =
     [ModeCall 2, TrainingSetup 1 None, UpdateLearningRate 5000] \<and>
   filter (\<lambda>x. is_UpdateLearningRate x \<or> x = ModeCall 2 \<or> x = TrainingSetup 1 None)
     (step_events long_config (example_env 1) 100 refine_state) =
     [ModeCall 2, TrainingSetup 1 None] \<and>
   mode2_iters long_config = 100 \<and>
   hd (step_events_3dgs long_config (example_env 1) 15201 finalize_state) =
     GsUpdateLearningRate 15201"
  by (simp add: run_defs example_defs more_defs step_events_def step_events_3dgs_def since_def
      is_UpdateLearningRate_def buffer_views_def)

text \<open>
  Claim C1, as amended. The moving average starts at 0, and a step with the training control
  set replaces it by \<open>0.4 * loss + 0.6 * ema\<close>, in the primitive path (where the loss is the
  composite loss of C5) and in the baseline point path (where it is
  \<open>(1 - lambda_dssim) * l1 + lambda_dssim * (1 - ssim)\<close>). For the losses 1.0, 0.5, 0.25 the
  successive values are 0.4, 0.44, 0.364.
\<close>

theorem ema_recurrence:
  "ema_loss_for_log (Trainer_init c s0) = 0 \<and>
   (button_train_state s \<longrightarrow>
      ema_loss_for_log (fst (train_step cfg e it s)) =
        0.4 * lerp (if (if it = mode2_iters cfg then 2 else mode_value s) < 2
                    then mse_loss e else l1_loss e) (1 - ssim e) (lambda_dssim cfg)
        + 0.6 * ema_loss_for_log s \<and>
      ema_loss_for_log (fst (train_step_3dgs cfg e it s)) =
        0.4 * gs_loss cfg e + 0.6 * ema_loss_for_log s)"
  by (simp add: step_ema gs_step_keeps Trainer_init_def Let_def)

theorem ema_recurrence_witness:
  "button_train_state example_state \<and>
   ema_loss_for_log (fst (train_step example_config (example_env 1) 1 example_state)) = 0.4 \<and>
   ema_loss_for_log (fst (train_step_3dgs example_config (example_env 1) 1 example_state)) = 0.4"
  using ema_recurrence [of None example_state example_state example_config "example_env 1" 1]
  by (simp add: example_defs lerp_def gs_loss_def)

text \<open>
  Claim C1 as stated fails in its example: three iterations with the losses 1.0, 0.5 and
  0.25 leave the moving averages 0.4, 0.44 and 0.364, not 0.4, 0.46 and 0.376.
\<close>

theorem ema_example_counterexample:
  "map (\<lambda>its. filter is_Backward (trace (fst (run_iterations example_config loss_envs its example_state))))
     [[1, 2, 3]] = [[Backward 1, Backward 0.5, Backward 0.25]] \<and>
   map (\<lambda>its. ema_loss_for_log (fst (run_iterations example_config loss_envs its example_state)))
     [[1], [1, 2], [1, 2, 3]] = [0.4, 0.44, 0.364] \<and>
   [0.4, 0.44, 0.364] \<noteq> [0.4, 0.46, 0.376 :: real]"
  by (simp add: run_defs example_defs loss_envs_def is_Backward_def)

text \<open>
  Claim C4, as amended. The trainer itself never lowers the mode control: along a run in
  which the client of the control channel sets the mode only to values that are at least
  the current one and at most 2, the mode left by the successive iterations never
  decreases and never exceeds 2, and once it is 2 it stays 2.
\<close>

theorem mode_monotone_under_channel:
  "channel_keeps_order cfg envs its s \<Longrightarrow> mode_value s \<le> 2 \<Longrightarrow>
   sorted (mode_value s # mode_history cfg envs its s) \<and>
   (\<forall>m \<in> set (mode_history cfg envs its s). m \<le> 2) \<and>
   (mode_value s = 2 \<longrightarrow> (\<forall>m \<in> set (mode_history cfg envs its s). m = 2))"
  using mode_history_order [of cfg envs its s] by fastforce

theorem mode_monotone_under_channel_witness:
  "channel_keeps_order example_config raising_envs [1, 2, 3] example_state \<and>
   mode_value example_state \<le> 2 \<and>
   mode_history example_config raising_envs [1, 2, 3] example_state = [1, 2, 2] \<and>
   sorted (mode_value example_state # mode_history example_config raising_envs [1, 2, 3] example_state)"
proof -
  have k: "channel_keeps_order example_config raising_envs [1, 2, 3] example_state"
    by (simp add: run_defs example_defs raising_envs_def)
  have m: "mode_value example_state \<le> 2"
    by (simp add: example_state_def)
  have h: "mode_history example_config raising_envs [1, 2, 3] example_state = [1, 2, 2]"
    by (simp add: run_defs example_defs raising_envs_def)
  show ?thesis
    using k m h mode_monotone_under_channel [OF k m] by simp
qed

text \<open>
  Claim C4 as stated fails: the mode control belongs to the control channel, and when the
  client sets it to 2 and then to 0 the second iteration runs in mode 0.
\<close>

theorem mode_reversal_counterexample:
  "mode_history example_config lowering_envs [1, 2] example_state = [2, 0]"
  by (simp add: run_defs example_defs lowering_envs_def)

text \<open>
  Claim C6, at a failing input. With a viewer attached and the selector \<^verbatim>\<open>Wireframe\<close>,
  which neither path supports, the baseline point path raises \<^verbatim>\<open>UnboundLocalError\<close> where
  it reads \<^verbatim>\<open>output\<close>, after the training part and the render for the client and without
  logging or publishing anything, and the run stops in its first iteration. The primitive
  path on the same input logs the selector, publishes \<^verbatim>\<open>None\<close> and returns.
\<close>

theorem unsupported_view_aborts_baseline:
  "snd (train_step_3dgs example_config wireframe_env 1 viewer_state) = Raised UnboundLocalError \<and>
   step_events_3dgs example_config wireframe_env 1 viewer_state =
     [GsUpdateLearningRate 1, GsRender, Backward 1, GsAddDensificationStats,
      GsOptimizerStep, GsZeroGradNone, GsRenderClient] \<and>
   snd (run_iterations example_config (\<lambda>it. wireframe_env\<lparr>gui_pts_mode := Some True\<rparr>)
          [1, 2, 3] viewer_state) = Raised UnboundLocalError \<and>
   snd (train_step example_config wireframe_env 1 viewer_state) = Returned \<and>
   filter (\<lambda>x. x = Print ''Unsupported render type: Wireframe'' \<or> x = SetBackgroundImage None)
     (step_events example_config wireframe_env 1 viewer_state) =
     [Print ''Unsupported render type: Wireframe'', SetBackgroundImage None]"
  by (simp add: run_defs example_defs viewer_state_def wireframe_env_def step_events_def
      step_events_3dgs_def since_def buffer_views_def)

text \<open>
  Claim C8, as amended. A step of the primitive path calls \<^verbatim>\<open>densify_and_prune\<close> only at an
  iteration below \<^verbatim>\<open>densify_until_iter\<close> that is a multiple of the (nonzero)
  \<^verbatim>\<open>densification_interval\<close>, and only when the split control was set when the step began;
  and after a step of the primitive path at an iteration above \<^verbatim>\<open>fix_iters\<close> the split
  control is off.
\<close>

theorem densify_schedule:
  "(DensifyAndPrune \<in> set (step_events cfg e it s) \<longrightarrow>
      it < densify_until_iter cfg \<and> densification_interval cfg \<noteq> 0 \<and>
      densification_interval cfg dvd it \<and> checkbox_split s) \<and>
   (it > fix_iters cfg \<longrightarrow> \<not> checkbox_split (fst (train_step cfg e it s)))"
proof (intro conjI impI)
  assume "DensifyAndPrune \<in> set (step_events cfg e it s)"
  then have c: "it < densify_until_iter cfg" "densification_interval cfg \<noteq> 0"
    "it mod densification_interval cfg = 0" "checkbox_split (mode_phase cfg it s)"
    by (simp_all add: step_has_densify)
  show "it < densify_until_iter cfg" by (rule c(1))
  show "densification_interval cfg \<noteq> 0" by (rule c(2))
  show "densification_interval cfg dvd it" using c(3) by (rule dvd_eq_mod_eq_0 [THEN iffD2])
  show "checkbox_split s" using c(4) by (rule mode_phase_split(1))
next
  assume late: "fix_iters cfg < it"
  show "\<not> checkbox_split (fst (train_step cfg e it s))"
  proof
    assume "checkbox_split (fst (train_step cfg e it s))"
    then have "checkbox_split (mode_phase cfg it s)" by (simp add: step_controls)
    then have "it \<le> fix_iters cfg" by (rule mode_phase_split(2))
    with late show False by simp
  qed
qed

theorem densify_schedule_witness:
  "DensifyAndPrune \<in> set (step_events example_config (example_env 1) 2 example_state) \<and>
   2 < densify_until_iter example_config \<and> densification_interval example_config dvd 2 \<and>
   checkbox_split example_state \<and>
   201 > fix_iters long_config \<and> 201 \<le> iterations long_config \<and>
   \<not> checkbox_split (fst (train_step long_config (example_env 1) 201 example_state))"
proof -
  have d: "DensifyAndPrune \<in> set (step_events example_config (example_env 1) 2 example_state)"
    using example_split by (simp add: step_has_densify) (simp add: example_defs)
  have l: "201 > fix_iters long_config" "201 \<le> iterations long_config"
    by (simp_all add: example_config_def long_config_def)
  show ?thesis
    using d l densify_schedule [of example_config "example_env 1" 2 example_state]
      densify_schedule [of long_config "example_env 1" 201 example_state]
    by blast
qed

text \<open>
  Claim C8 as stated fails in the iterations that run the baseline point path. A step of
  that path at iteration 201, above \<^verbatim>\<open>fix_iters\<close>, leaves the split control set; and at
  iteration 100, which is not below \<^verbatim>\<open>densify_until_iter\<close>, with the split control off, it
  calls the \<^verbatim>\<open>densify_and_prune\<close> of the point model.
\<close>

theorem baseline_densify_counterexample:
  "201 > fix_iters long_config \<and>
   checkbox_split (fst (train_step_3dgs long_config (example_env 1) 201 example_state)) \<and>
   \<not> 100 < densify_until_iter long_config \<and>
   filter is_GsDensifyAndPrune
     (step_events_3dgs long_config (example_env 1) 100 (example_state\<lparr>checkbox_split := False\<rparr>)) =
     [GsDensifyAndPrune None]"
  by (simp add: run_defs example_defs more_defs step_events_3dgs_def since_def
      is_GsDensifyAndPrune_def)

text \<open>
  Claim C9. After the constructor has loaded a checkpoint, \<^verbatim>\<open>first_iter\<close> is the stored
  iteration number, and the loop starts one iteration later. When that number exceeds 15200,
  the constructor makes the single call \<^verbatim>\<open>mode(2)\<close>, which leaves the object in mode 2, and
  \<^verbatim>\<open>train\<close> sets the mode control to 2 before the first iteration. Otherwise the
  constructor makes no call and leaves the mode that \<^verbatim>\<open>restore\<close> left.
\<close>

theorem checkpoint_restore:
  "first_iter (Trainer_init (Some (rm, n)) s0) = n \<and>
   first_iter (train_start cfg (Trainer_init (Some (rm, n)) s0)) = n + 1 \<and>
   (n > 15200 \<longrightarrow>
      boundary_mode (Trainer_init (Some (rm, n)) s0) = 2 \<and>
      trace (Trainer_init (Some (rm, n)) s0) = trace s0 @ [ModeCall 2] \<and>
      mode_value (train_start cfg (Trainer_init (Some (rm, n)) s0)) = 2) \<and>
   (n \<le> 15200 \<longrightarrow>
      boundary_mode (Trainer_init (Some (rm, n)) s0) = rm \<and>
      trace (Trainer_init (Some (rm, n)) s0) = trace s0)"
  by (simp add: Trainer_init_def train_start_def mode_def emit_def Let_def)

theorem checkpoint_restore_witness:
  "(20000::int) > 15200 \<and> (7000::int) \<le> 15200 \<and>
   first_iter (Trainer_init (Some (0, 20000)) example_state) = 20000 \<and>
   mode_value (train_start example_config (Trainer_init (Some (0, 20000)) example_state)) = 2 \<and>
   boundary_mode (Trainer_init (Some (0, 7000)) example_state) = 0 \<and>
   trace (Trainer_init (Some (0, 7000)) example_state) = trace example_state"
  using checkpoint_restore [of 0 20000 example_state example_config]
    checkpoint_restore [of 0 7000 example_state example_config]
  by simp

text \<open>
  Claim C10, as amended. At an iteration of the checkpoint list, with the training control
  set, a step of the primitive path writes the checkpoint file of the iteration twice, to
  the same path: before the place of the optimizer step and after it. The optimizer step
  runs between the two writes only when the optimizer control is set and the iteration is
  below the budget. The file that is left holds the second capture, taken after the
  optimizer step of this iteration when there is one, and before the edit of the
  population of this iteration.
\<close>

theorem checkpoint_written_twice:
  assumes "it \<in> set (checkpoint_iterations cfg)" and "button_train_state s"
  shows "filter (\<lambda>x. x = OptimizerStep \<or> is_SaveCheckpoint x) (step_events cfg e it s) =
           [SaveCheckpoint (chkpnt_path cfg it)] @
           (if button_optimize_state s \<and> it < iterations cfg then [OptimizerStep] else []) @
           [SaveCheckpoint (chkpnt_path cfg it)] \<and>
         (\<exists>snap. files (fst (train_step cfg e it s)) (chkpnt_path cfg it) = Some (snap, it) \<and>
            filter (\<lambda>x. x = OptimizerStep \<or> x = DensifyAndPrune \<or> is_SaveCheckpoint x)
              (drop (length (trace s)) (snap_history snap)) =
            SaveCheckpoint (chkpnt_path cfg it) #
            (if button_optimize_state s \<and> it < iterations cfg then [OptimizerStep] else []))"
proof -
  obtain t where t: "files (fst (train_step cfg e it s)) (chkpnt_path cfg it) = Some (capture t, it)"
    "filter (\<lambda>x. x = OptimizerStep \<or> x = DensifyAndPrune \<or> is_SaveCheckpoint x) (since s t) =
       SaveCheckpoint (chkpnt_path cfg it) #
       (if button_optimize_state s \<and> it < iterations cfg then [OptimizerStep] else [])"
    using step_snapshot [OF assms(2) assms(1), of e] by blast
  have "snap_history (capture t) = trace t"
    by (simp add: capture_def)
  then have "filter (\<lambda>x. x = OptimizerStep \<or> x = DensifyAndPrune \<or> is_SaveCheckpoint x)
      (drop (length (trace s)) (snap_history (capture t))) =
      SaveCheckpoint (chkpnt_path cfg it) #
      (if button_optimize_state s \<and> it < iterations cfg then [OptimizerStep] else [])"
    using t(2) by (simp add: since_def)
  with t(1) show ?thesis
    using assms by (simp add: step_checkpoint_order)
qed

theorem checkpoint_written_twice_witness:
  "2 \<in> set (checkpoint_iterations example_config) \<and> button_train_state example_state \<and>
   chkpnt_path example_config 2 = ''out/chkpnt2.pth'' \<and>
   filter (\<lambda>x. x = OptimizerStep \<or> is_SaveCheckpoint x)
     (step_events example_config (example_env 1) 2 example_state) =
     [SaveCheckpoint ''out/chkpnt2.pth'', OptimizerStep, SaveCheckpoint ''out/chkpnt2.pth'']"
proof -
  have a: "2 \<in> set (checkpoint_iterations example_config)"
    by (simp add: example_config_def)
  have b: "button_train_state example_state"
    by (simp add: example_state_def)
  have p: "chkpnt_path example_config 2 = ''out/chkpnt2.pth''"
    by (simp add: chkpnt_path_def str_int_def example_config_def)
  have o: "button_optimize_state example_state \<and> 2 < iterations example_config"
    by (simp add: example_defs)
  show ?thesis
    using a b o checkpoint_written_twice [OF a b, of "example_env 1"] by (simp add: p)
qed

text \<open>
  Claim C10 as stated fails. A step of the baseline point path at iteration 2 of the
  checkpoint list, with the training control set, writes no checkpoint. In the last
  iteration, which the checkpoint list holds too, a step of the primitive path writes the
  file twice with no optimizer step between the two writes.
\<close>

theorem checkpoint_coverage_counterexample:
  "2 \<in> set (checkpoint_iterations example_config) \<and> button_train_state example_state \<and>
   filter is_SaveCheckpoint (step_events_3dgs example_config (example_env 1) 2 example_state) = [] \<and>
   files (fst (train_step_3dgs example_config (example_env 1) 2 example_state))
     (chkpnt_path example_config 2) = None \<and>
   3 \<in> set (checkpoint_iterations example_config) \<and> iterations example_config = 3 \<and>
   filter (\<lambda>x. x = OptimizerStep \<or> is_SaveCheckpoint x)
     (step_events example_config (example_env 1) 3 example_state) =
     [SaveCheckpoint (chkpnt_path example_config 3), SaveCheckpoint (chkpnt_path example_config 3)]"
  by (simp add: step_checkpoint_order)
     (simp add: run_defs example_defs step_events_3dgs_def since_def is_SaveCheckpoint_def)

end
